theory Spec2Isabelle
  imports Complex_Main "HOL-Library.Word"
begin

section \<open>Floating-point values\<close>

text \<open>
  The program computes with C \<^verbatim>\<open>float\<close>. A value is modelled by the real number it
  denotes, or by one of the three non-finite values of IEEE 754. Arithmetic on finite
  values is exact (rounding and overflow are not modelled, and the two zeros are one
  value); the non-finite values follow the IEEE rules, so that a division by zero gives
  an infinity or a NaN, as it does in the program, and not a number.
\<close>

datatype float = Fin real | PInf | NInf | NaN

instantiation float :: "{plus, minus, uminus, times, inverse, ord}"
begin

fun plus_float :: "float \<Rightarrow> float \<Rightarrow> float" where
  "plus_float NaN b = NaN"
| "plus_float a NaN = NaN"
| "plus_float (Fin a) (Fin b) = Fin (a + b)"
| "plus_float PInf NInf = NaN"
| "plus_float NInf PInf = NaN"
| "plus_float PInf b = PInf"
| "plus_float NInf b = NInf"
| "plus_float (Fin a) b = b"

fun uminus_float :: "float \<Rightarrow> float" where
  "uminus_float (Fin a) = Fin (- a)"
| "uminus_float PInf = NInf"
| "uminus_float NInf = PInf"
| "uminus_float NaN = NaN"

definition minus_float :: "float \<Rightarrow> float \<Rightarrow> float" where
  "minus_float a b = a + (- b)"

text \<open>The product of an infinity and zero is NaN.\<close>

fun times_float :: "float \<Rightarrow> float \<Rightarrow> float" where
  "times_float NaN b = NaN"
| "times_float a NaN = NaN"
| "times_float (Fin a) (Fin b) = Fin (a * b)"
| "times_float PInf PInf = PInf"
| "times_float PInf NInf = NInf"
| "times_float NInf PInf = NInf"
| "times_float NInf NInf = PInf"
| "times_float PInf (Fin b) = (if 0 < b then PInf else if b < 0 then NInf else NaN)"
| "times_float NInf (Fin b) = (if 0 < b then NInf else if b < 0 then PInf else NaN)"
| "times_float (Fin a) PInf = (if 0 < a then PInf else if a < 0 then NInf else NaN)"
| "times_float (Fin a) NInf = (if 0 < a then NInf else if a < 0 then PInf else NaN)"

text \<open>
  A finite non-zero value divided by zero is an infinity, zero divided by zero is NaN,
  a finite value divided by an infinity is zero.
\<close>

fun divide_float :: "float \<Rightarrow> float \<Rightarrow> float" where
  "divide_float NaN b = NaN"
| "divide_float a NaN = NaN"
| "divide_float (Fin a) (Fin b) =
     (if b \<noteq> 0 then Fin (a / b)
      else if 0 < a then PInf else if a < 0 then NInf else NaN)"
| "divide_float (Fin a) b = Fin 0"
| "divide_float PInf (Fin b) = (if 0 \<le> b then PInf else NInf)"
| "divide_float NInf (Fin b) = (if 0 \<le> b then NInf else PInf)"
| "divide_float a b = NaN"

definition inverse_float :: "float \<Rightarrow> float" where
  "inverse_float a = divide (Fin 1) a"

text \<open>The comparisons of C: every comparison with NaN is false.\<close>

fun less_float :: "float \<Rightarrow> float \<Rightarrow> bool" where
  "less_float NaN b = False"
| "less_float a NaN = False"
| "less_float (Fin a) (Fin b) = (a < b)"
| "less_float a PInf = (a \<noteq> PInf)"
| "less_float NInf b = (b \<noteq> NInf)"
| "less_float a b = False"

definition less_eq_float :: "float \<Rightarrow> float \<Rightarrow> bool" where
  "less_eq_float a b = (a < b \<or> (a = b \<and> a \<noteq> NaN))"

instance ..

end

fun sqrtf :: "float \<Rightarrow> float" where
  "sqrtf (Fin a) = (if a < 0 then NaN else Fin (sqrt a))"
| "sqrtf PInf = PInf"
| "sqrtf a = NaN"

fun cosf :: "float \<Rightarrow> float" where
  "cosf (Fin a) = Fin (cos a)"
| "cosf a = NaN"

fun sinf :: "float \<Rightarrow> float" where
  "sinf (Fin a) = Fin (sin a)"
| "sinf a = NaN"


subsection \<open>Conversions between \<^verbatim>\<open>int\<close> and \<^verbatim>\<open>float\<close>\<close>

text \<open>
  Undefined behaviour of the C program is a value of the model: a conversion of a float
  that no \<^verbatim>\<open>int\<close> holds, a read outside the tile grid, a shift by a count outside
  the width of the operand.
\<close>

datatype error = Undefined_Conversion | Out_Of_Bounds | Undefined_Shift

definition ebind :: "error + 'a \<Rightarrow> ('a \<Rightarrow> error + 'b) \<Rightarrow> error + 'b" where
  "ebind m f = (case m of Inl e \<Rightarrow> Inl e | Inr v \<Rightarrow> f v)"

text \<open>Truncation toward zero, the rounding of the cast \<^verbatim>\<open>(int) x\<close>.\<close>

definition trunc :: "real \<Rightarrow> int" where
  "trunc r = (if 0 \<le> r then \<lfloor>r\<rfloor> else \<lceil>r\<rceil>)"

text \<open>
  \<^verbatim>\<open>(int) x\<close>: defined when the truncated value is a 32-bit \<^verbatim>\<open>int\<close>, undefined
  for the other finite values, for the infinities and for NaN.
\<close>

fun to_int :: "float \<Rightarrow> error + int" where
  "to_int (Fin r) =
     (if - 2147483649 < r \<and> r < 2147483648 then Inr (trunc r) else Inl Undefined_Conversion)"
| "to_int a = Inl Undefined_Conversion"

text \<open>\<^verbatim>\<open>(float) i\<close>, and the implicit conversion of an \<^verbatim>\<open>int\<close> operand.\<close>

definition of_int_f :: "int \<Rightarrow> float" where
  "of_int_f i = Fin (of_int i)"

section \<open>Vector math\<close>

text \<open>
  \<^verbatim>\<open>typedef struct { float x; float y; } Point;\<close>
  The fields are named \<open>px\<close> and \<open>py\<close>, the fields of the other structs carry the
  name of their struct, since a selector is a constant of the theory and the program
  uses the plain names for its parameters and locals as well.
\<close>

record Point =
  px :: float
  py :: float

definition turn :: "Point \<Rightarrow> float \<Rightarrow> Point" where
  "turn a t =
     \<lparr> px = px a * cosf t - py a * sinf t,
       py = px a * sinf t + py a * cosf t \<rparr>"

text \<open>Right angle rotation.\<close>

definition rag :: "Point \<Rightarrow> Point" where
  "rag a = \<lparr> px = - py a, py = px a \<rparr>"

definition sub :: "Point \<Rightarrow> Point \<Rightarrow> Point" where
  "sub a b = \<lparr> px = px a - px b, py = py a - py b \<rparr>"

definition add :: "Point \<Rightarrow> Point \<Rightarrow> Point" where
  "add a b = \<lparr> px = px a + px b, py = py a + py b \<rparr>"

definition mul :: "Point \<Rightarrow> float \<Rightarrow> Point" where
  "mul a n = \<lparr> px = px a * n, py = py a * n \<rparr>"

definition mag :: "Point \<Rightarrow> float" where
  "mag a = sqrtf (px a * px a + py a * py a)"

definition dvd_point :: "Point \<Rightarrow> float \<Rightarrow> Point" where
  "dvd_point a n = \<lparr> px = px a / n, py = py a / n \<rparr>"

definition unt :: "Point \<Rightarrow> Point" where
  "unt a = dvd_point a (mag a)"

definition slope :: "Point \<Rightarrow> float" where
  "slope a = py a / px a"

text \<open>Fast floor: \<^verbatim>\<open>(int) x - (x < (int) x)\<close>.\<close>

definition fl :: "float \<Rightarrow> error + int" where
  "fl v = ebind (to_int v) (\<lambda>i. Inr (i - (if v < of_int_f i then 1 else 0)))"

text \<open>Fast ceil: \<^verbatim>\<open>(int) x + (x > (int) x)\<close>.\<close>

definition cl :: "float \<Rightarrow> error + int" where
  "cl v = ebind (to_int v) (\<lambda>i. Inr (i + (if v > of_int_f i then 1 else 0)))"

text \<open>\<^verbatim>\<open>typedef struct { Point a; Point b; } Line;\<close>\<close>

record Line =
  line_a :: Point
  line_b :: Point

definition rotate_line :: "Line \<Rightarrow> float \<Rightarrow> Line" where
  "rotate_line l t = \<lparr> line_a = turn (line_a l) t, line_b = turn (line_b l) t \<rparr>"

text \<open>Linear interpolation.\<close>

definition lerp :: "Line \<Rightarrow> float \<Rightarrow> Point" where
  "lerp l n = add (line_a l) (mul (sub (line_b l) (line_a l)) n)"

section \<open>Projection\<close>

text \<open>\<^verbatim>\<open>typedef struct { int top; int bot; float size; } Wall;\<close>\<close>

record Wall =
  wall_top :: int
  wall_bot :: int
  wall_size :: float

text \<open>
  The two conversions to \<^verbatim>\<open>int\<close> are the initialisers of \<^verbatim>\<open>top\<close> and
  \<^verbatim>\<open>bot\<close>, in this order.
\<close>

definition project :: "int \<Rightarrow> int \<Rightarrow> Line \<Rightarrow> Point \<Rightarrow> error + Wall" where
  "project xres yres fov corrected =
     (let size' = Fin 0.5 * px (line_a fov) * of_int_f xres
                    / (if px corrected < Fin 0.01 then Fin 0.01 else px corrected)
      in ebind (to_int ((of_int_f yres + size') / Fin 2)) (\<lambda>top'.
         ebind (to_int ((of_int_f yres - size') / Fin 2)) (\<lambda>bot'.
         Inr \<lparr> wall_top = (if top' > yres then yres else top'),
               wall_bot = (if bot' < 0 then 0 else bot'),
               wall_size = size' \<rparr>)))"

section \<open>Grid raycaster\<close>

text \<open>Steps horizontally along a grid.\<close>

definition sh :: "Point \<Rightarrow> Point \<Rightarrow> error + Point" where
  "sh a b =
     ebind (if px b > Fin 0 then fl (px a + Fin 1) else cl (px a - Fin 1)) (\<lambda>i.
       let x = of_int_f i;
           y = slope b * (x - px a) + py a
       in Inr \<lparr> px = x, py = y \<rparr>)"

text \<open>Steps vertically along a grid.\<close>

definition sv :: "Point \<Rightarrow> Point \<Rightarrow> error + Point" where
  "sv a b =
     ebind (if py b > Fin 0 then fl (py a + Fin 1) else cl (py a - Fin 1)) (\<lambda>i.
       let y = of_int_f i;
           x = (y - py a) / slope b + px a
       in Inr \<lparr> px = x, py = y \<rparr>)"

definition cmp :: "Point \<Rightarrow> Point \<Rightarrow> Point \<Rightarrow> Point" where
  "cmp a b c = (if mag (sub b a) < mag (sub c a) then b else c)"

text \<open>
  A tile grid is the array of its rows, each row a string of digits. \<^verbatim>\<open>tiles[y][x] - '0'\<close>
  is computed on \<^verbatim>\<open>char\<close>, a byte; a read outside of the rows is undefined.
\<close>

definition tile :: "Point \<Rightarrow> string list \<Rightarrow> error + 8 word" where
  "tile a tiles =
     ebind (to_int (px a)) (\<lambda>x.
     ebind (to_int (py a)) (\<lambda>y.
       if 0 \<le> y \<and> y < int (length tiles) \<and> 0 \<le> x \<and> x < int (length (tiles ! nat y))
       then Inr (of_char (tiles ! nat y ! nat x) - of_char CHR ''0'')
       else Inl Out_Of_Bounds))"

text \<open>\<^verbatim>\<open>typedef struct { char tile; Point where; } Hit;\<close>\<close>

record Hit =
  hit_tile :: "8 word"
  hit_where :: Point

text \<open>Floating point decimal.\<close>

definition dec :: "float \<Rightarrow> error + float" where
  "dec v = ebind (to_int v) (\<lambda>i. Inr (v - of_int_f i))"

text \<open>
  The straight-line part of \<^verbatim>\<open>cast\<close>: the crossing \<^verbatim>\<open>ray\<close> and the nudged point
  \<^verbatim>\<open>test\<close>. The conditional operators evaluate \<^verbatim>\<open>dec(ray.y)\<close> only when
  \<^verbatim>\<open>dec(ray.x) == 0.0f\<close>.
\<close>

definition cast_test :: "Point \<Rightarrow> Point \<Rightarrow> error + Point \<times> Point" where
  "cast_test whr direction =
     ebind (sh whr direction) (\<lambda>h.
     ebind (sv whr direction) (\<lambda>v.
       let ray = cmp whr h v;
           delta = mul direction (Fin 0.01);
           dx = \<lparr> px = px delta, py = Fin 0 \<rparr>;
           dy = \<lparr> px = Fin 0, py = py delta \<rparr>
       in ebind (dec (px ray)) (\<lambda>decx.
            if decx = Fin 0
            then ebind (dec (py ray)) (\<lambda>decy.
                   Inr (ray, add ray (if decy = Fin 0 then delta else dx)))
            else Inr (ray, add ray dy))))"

text \<open>
  \<^verbatim>\<open>cast\<close> calls itself until the tile of \<^verbatim>\<open>test\<close> is not zero; \<open>None\<close> is a
  recursion that never returns.
\<close>

partial_function (option) cast :: "Point \<Rightarrow> Point \<Rightarrow> string list \<Rightarrow> (error + Hit) option" where
  "cast whr direction walling =
     (case cast_test whr direction of
        Inl e \<Rightarrow> Some (Inl e)
      | Inr (ray, test) \<Rightarrow>
          (case tile test walling of
             Inl e \<Rightarrow> Some (Inl e)
           | Inr t \<Rightarrow>
               if t \<noteq> 0 then Some (Inr \<lparr> hit_tile = t, hit_where = test \<rparr>)
               else cast ray direction walling))"

text \<open>Party casting (flooring and ceiling).\<close>

definition pcast :: "float \<Rightarrow> int \<Rightarrow> int \<Rightarrow> float" where
  "pcast size' yres y = size' / of_int_f (2 * (y + 1) - yres)"

section \<open>Hero\<close>

text \<open>
  \<^verbatim>\<open>typedef struct { Line fov; Point where; Point velocity; float speed;
  float acceleration; float theta; } Hero;\<close>
\<close>

record Hero =
  hero_fov :: Line
  hero_where :: Point
  hero_velocity :: Point
  hero_speed :: float
  hero_acceleration :: float
  hero_theta :: float

text \<open>The keyboard state, an array of bytes indexed by scancode.\<close>

datatype scancode =
  SDL_SCANCODE_W | SDL_SCANCODE_S | SDL_SCANCODE_D | SDL_SCANCODE_A
| SDL_SCANCODE_H | SDL_SCANCODE_L

definition spin :: "Hero \<Rightarrow> (scancode \<Rightarrow> 8 word) \<Rightarrow> Hero" where
  "spin hero key =
     (let hero = (if key SDL_SCANCODE_H \<noteq> 0
                  then hero\<lparr> hero_theta := hero_theta hero - Fin 0.1 \<rparr> else hero);
          hero = (if key SDL_SCANCODE_L \<noteq> 0
                  then hero\<lparr> hero_theta := hero_theta hero + Fin 0.1 \<rparr> else hero)
      in hero)"

text \<open>
  The first half of \<^verbatim>\<open>move\<close>: the velocity after acceleration or decay and after
  the cap, before the hero moves.
\<close>

definition move_velocity :: "Hero \<Rightarrow> (scancode \<Rightarrow> 8 word) \<Rightarrow> Point" where
  "move_velocity hero key =
     (let velocity =
        (if key SDL_SCANCODE_W \<noteq> 0 \<or> key SDL_SCANCODE_S \<noteq> 0
            \<or> key SDL_SCANCODE_D \<noteq> 0 \<or> key SDL_SCANCODE_A \<noteq> 0
         then
           let reference = \<lparr> px = Fin 1, py = Fin 0 \<rparr>;
               direction = turn reference (hero_theta hero);
               acceleration = mul direction (hero_acceleration hero);
               velocity = hero_velocity hero;
               velocity = (if key SDL_SCANCODE_W \<noteq> 0 then add velocity acceleration else velocity);
               velocity = (if key SDL_SCANCODE_S \<noteq> 0 then sub velocity acceleration else velocity);
               velocity = (if key SDL_SCANCODE_D \<noteq> 0 then add velocity (rag acceleration) else velocity);
               velocity = (if key SDL_SCANCODE_A \<noteq> 0 then sub velocity (rag acceleration) else velocity)
           in velocity
         else mul (hero_velocity hero) (Fin 1 - hero_acceleration hero / hero_speed hero))
      in if mag velocity > hero_speed hero then mul (unt velocity) (hero_speed hero) else velocity)"

definition move :: "Hero \<Rightarrow> string list \<Rightarrow> (scancode \<Rightarrow> 8 word) \<Rightarrow> error + Hero" where
  "move hero walling key =
     (let last' = hero_where hero;
          zero = \<lparr> px = Fin 0, py = Fin 0 \<rparr>;
          hero = hero\<lparr> hero_velocity := move_velocity hero key \<rparr>;
          hero = hero\<lparr> hero_where := add (hero_where hero) (hero_velocity hero) \<rparr>
      in ebind (tile (hero_where hero) walling) (\<lambda>t.
           if t \<noteq> 0 then Inr (hero\<lparr> hero_velocity := zero, hero_where := last' \<rparr>)
           else Inr hero))"

definition viewport :: "float \<Rightarrow> Line" where
  "viewport focal =
     \<lparr> line_a = \<lparr> px = focal, py = - Fin 1 \<rparr>,
       line_b = \<lparr> px = focal, py = Fin 1 \<rparr> \<rparr>"

definition born :: Hero where
  "born =
     \<lparr> hero_fov = viewport (Fin 1),
       hero_where = \<lparr> px = Fin 3.5, py = Fin 3.5 \<rparr>,
       hero_velocity = \<lparr> px = Fin 0, py = Fin 0 \<rparr>,
       hero_speed = Fin 0.10,
       hero_acceleration = Fin 0.01,
       hero_theta = Fin 0 \<rparr>"

section \<open>Map and renderer\<close>

text \<open>\<^verbatim>\<open>typedef struct { const char** ceiling; const char** walling; const char** floring; } Map;\<close>\<close>

record Map =
  map_ceiling :: "string list"
  map_walling :: "string list"
  map_floring :: "string list"

definition build :: Map where
  "build =
     \<lparr> map_ceiling =
         [''111111111111111111111111111111111111111111111'',
          ''122223223232232111111111111111222232232322321'',
          ''122222221111232111111111111111222222211112321'',
          ''122221221232323232323232323232222212212323231'',
          ''122222221111232111111111111111222222211112321'',
          ''122223223232232111111111111111222232232322321'',
          ''111111111111111111111111111111111111111111111''],
       map_walling =
         [''111111111111111111111111111111111111111111111'',
          ''100000000000000111111111111111000000000000001'',
          ''103330001111000111111111111111033300011110001'',
          ''103000000000000000000000000000030000030000001'',
          ''103330001111000111111111111111033300011110001'',
          ''100000000000000111111111111111000000000000001'',
          ''111111111111111111111111111111111111111111111''],
       map_floring =
         [''111111111111111111111111111111111111111111111'',
          ''122223223232232111111111111111222232232322321'',
          ''122222221111232111111111111111222222211112321'',
          ''122222221232323323232323232323222222212323231'',
          ''122222221111232111111111111111222222211112321'',
          ''122223223232232111111111111111222232232322321'',
          ''111111111111111111111111111111111111111111111''] \<rparr>"

text \<open>
  Of \<^verbatim>\<open>Gpu\<close> the renderer reads the resolution; the window, the renderer and the
  texture of SDL are outside of the model.
\<close>

record Gpu =
  gpu_xres :: int
  gpu_yres :: int

text \<open>
  \<^verbatim>\<open>typedef struct { uint32_t* pixels; int width; } Display;\<close>
  The locked texture: \<open>pixels\<close> is the pixel buffer, a write outside of it is undefined.
\<close>

record Display =
  display_pixels :: "32 word list"
  display_width :: int

definition put :: "Display \<Rightarrow> int \<Rightarrow> int \<Rightarrow> 32 word \<Rightarrow> error + Display" where
  "put display x y pixel =
     (let i = y + x * display_width display
      in if 0 \<le> i \<and> i < int (length (display_pixels display))
         then Inr (display\<lparr> display_pixels := (display_pixels display)[nat i := pixel] \<rparr>)
         else Inl Out_Of_Bounds)"

text \<open>
  \<^verbatim>\<open>0xAA << (8 * (tile - 1))\<close>, a shift of an \<^verbatim>\<open>int\<close>: undefined for a negative
  count, for a count of 32 or more and when the result is no \<^verbatim>\<open>int\<close>.
\<close>

definition color :: "8 word \<Rightarrow> error + 32 word" where
  "color t =
     (let n = 8 * (sint t - 1)
      in if 0 \<le> n \<and> n < 32 \<and> 170 * 2 ^ nat n \<le> (2147483647 :: int)
         then Inr (push_bit (nat n) 170)
         else Inl Undefined_Shift)"

text \<open>A \<^verbatim>\<open>for\<close> loop over the values of a list, stopping at the first error.\<close>

primrec efold :: "('a \<Rightarrow> 's \<Rightarrow> error + 's) \<Rightarrow> 'a list \<Rightarrow> 's \<Rightarrow> error + 's" where
  "efold f [] s = Inr s"
| "efold f (v # vs) s = ebind (f v s) (efold f vs)"

text \<open>The body of the loop over the columns \<^verbatim>\<open>x\<close> of \<^verbatim>\<open>render\<close>.\<close>

definition render_column :: "Hero \<Rightarrow> Map \<Rightarrow> Gpu \<Rightarrow> Line \<Rightarrow> int \<Rightarrow> Display \<Rightarrow> (error + Display) option" where
  "render_column hero map' gpu camera x display =
     (let column = lerp camera (of_int_f x / of_int_f (gpu_xres gpu))
      in case cast (hero_where hero) column (map_walling map') of
           None \<Rightarrow> None
         | Some (Inl e) \<Rightarrow> Some (Inl e)
         | Some (Inr hit) \<Rightarrow>
             let ray = sub (hit_where hit) (hero_where hero);
                 corrected = turn ray (- hero_theta hero)
             in Some (
               ebind (project (gpu_xres gpu) (gpu_yres gpu) (hero_fov hero) corrected) (\<lambda>wall.
                 let trace = \<lparr> line_a = hero_where hero, line_b = hit_where hit \<rparr>
                 in
                 ebind (efold (\<lambda>y display.
                          ebind (tile (lerp trace (- pcast (wall_size wall) (gpu_yres gpu) y))
                                   (map_floring map')) (\<lambda>t.
                          ebind (color t) (\<lambda>c. put display x y c)))
                        [0 .. wall_bot wall - 1] display) (\<lambda>display.
                 ebind (efold (\<lambda>y display.
                          ebind (color (hit_tile hit)) (\<lambda>c. put display x y c))
                        [wall_bot wall .. wall_top wall - 1] display) (\<lambda>display.
                 efold (\<lambda>y display.
                          ebind (tile (lerp trace (pcast (wall_size wall) (gpu_yres gpu) y))
                                   (map_ceiling map')) (\<lambda>t.
                          ebind (color t) (\<lambda>c. put display x y c)))
                        [wall_top wall .. gpu_xres gpu - 1] display)))))"

text \<open>
  The loop over the columns; a column that fails or does not return ends the frame.
\<close>

primrec render_columns :: "Hero \<Rightarrow> Map \<Rightarrow> Gpu \<Rightarrow> Line \<Rightarrow> int list \<Rightarrow> Display \<Rightarrow> (error + Display) option" where
  "render_columns hero map' gpu camera [] display = Some (Inr display)"
| "render_columns hero map' gpu camera (x # xs) display =
     (case render_column hero map' gpu camera x display of
        None \<Rightarrow> None
      | Some (Inl e) \<Rightarrow> Some (Inl e)
      | Some (Inr display) \<Rightarrow> render_columns hero map' gpu camera xs display)"

text \<open>
  \<^verbatim>\<open>render\<close> on the locked display; locking, presenting and the pacing of the frame
  are calls into SDL and outside of the model.
\<close>

definition render :: "Hero \<Rightarrow> Map \<Rightarrow> Gpu \<Rightarrow> Display \<Rightarrow> (error + Display) option" where
  "render hero map' gpu display =
     (let camera = rotate_line (hero_fov hero) (hero_theta hero)
      in render_columns hero map' gpu camera [0 .. gpu_xres gpu - 1] display)"

section \<open>Notions for the correctness of the raycaster\<close>







section \<open>Properties\<close>

lemma ebind_simps [simp]:
  "ebind (Inl e) f = Inl e"
  "ebind (Inr v) f = f v"
  by (simp_all add: ebind_def)

lemma ebind_eq_Inr:
  "ebind m f = Inr r \<longleftrightarrow> (\<exists>v. m = Inr v \<and> f v = Inr r)"
  by (cases m) simp_all


lemma minus_Fin [simp]: "Fin a - Fin b = Fin (a - b)"
  by (simp add: minus_float_def)


subsection \<open>Projection\<close>













subsection \<open>Movement\<close>

lemma le_Fin [simp]: "Fin a \<le> Fin b \<longleftrightarrow> a \<le> b"
  by (auto simp: less_eq_float_def)







text \<open>
  C3. If the tile of the wall grid at the tentative position \<open>where + velocity\<close>, the
  velocity taken after acceleration or decay and the cap, is not zero, then \<open>move\<close>
  returns the hero at the position it had before, with the velocity \<open>(0, 0)\<close>.
\<close>

theorem move_collision:
  assumes "tile (add (hero_where hero) (move_velocity hero key)) walling = Inr t" and "t \<noteq> 0"
  shows "\<exists>h. move hero walling key = Inr h \<and> hero_where h = hero_where hero
           \<and> hero_velocity h = \<lparr> px = Fin 0, py = Fin 0 \<rparr>"
  using assms by (simp add: move_def Let_def)

theorem move_collision_witness:
  "tile (add (hero_where (born\<lparr> hero_where := \<lparr> px = Fin 3.005, py = Fin 3.5 \<rparr> \<rparr>))
          (move_velocity (born\<lparr> hero_where := \<lparr> px = Fin 3.005, py = Fin 3.5 \<rparr> \<rparr>)
             ((\<lambda>k. 0)(SDL_SCANCODE_S := 1))))
     (map_walling build) = Inr 3
   \<and> (3 :: 8 word) \<noteq> 0
   \<and> (\<exists>h. move (born\<lparr> hero_where := \<lparr> px = Fin 3.005, py = Fin 3.5 \<rparr> \<rparr>) (map_walling build)
               ((\<lambda>k. 0)(SDL_SCANCODE_S := 1)) = Inr h
          \<and> hero_where h = hero_where (born\<lparr> hero_where := \<lparr> px = Fin 3.005, py = Fin 3.5 \<rparr> \<rparr>)
          \<and> hero_velocity h = \<lparr> px = Fin 0, py = Fin 0 \<rparr>)"
proof -
  have v: "move_velocity (born\<lparr> hero_where := \<lparr> px = Fin 3.005, py = Fin 3.5 \<rparr> \<rparr>)
             ((\<lambda>k. 0)(SDL_SCANCODE_S := 1)) = \<lparr> px = Fin (- 0.01), py = Fin 0 \<rparr>"
  proof -
    have "sqrt (1 / 10000) = 1 / 100"
      by (rule real_sqrt_unique) (simp_all add: power2_eq_square)
    then show ?thesis
      by (simp add: move_velocity_def born_def turn_def mul_def sub_def mag_def Let_def)
  qed
  have t: "tile (add (hero_where (born\<lparr> hero_where := \<lparr> px = Fin 3.005, py = Fin 3.5 \<rparr> \<rparr>))
          (move_velocity (born\<lparr> hero_where := \<lparr> px = Fin 3.005, py = Fin 3.5 \<rparr> \<rparr>)
             ((\<lambda>k. 0)(SDL_SCANCODE_S := 1))))
     (map_walling build) = Inr 3"
    unfolding v by (simp add: tile_def add_def build_def trunc_def)
  have n: "(3 :: 8 word) \<noteq> 0" by simp
  show ?thesis using t n move_collision[OF t n] by blast
qed

subsection \<open>Raycaster\<close>



lemma trunc_eq_self_iff: "r = of_int (trunc r) \<longleftrightarrow> r \<in> \<int>"
proof
  assume "r = of_int (trunc r)"
  then show "r \<in> \<int>" by (metis Ints_of_int)
next
  assume "r \<in> \<int>"
  then show "r = of_int (trunc r)" unfolding trunc_def by (auto elim!: Ints_cases)
qed


lemma dec_eq_Inr:
  "dec v = Inr u \<longleftrightarrow> (\<exists>r. v = Fin r \<and> - 2147483649 < r \<and> r < 2147483648 \<and> u = Fin (r - of_int (trunc r)))"
  by (cases v) (auto simp: dec_def of_int_f_def ebind_eq_Inr)

lemmas cast_eval = cast_test_def sh_def sv_def fl_def cl_def slope_def cmp_def sub_def mag_def
  dec_def add_def mul_def of_int_f_def trunc_def Let_def minus_float_def

lemma cast_test_diagonal: "cast_test \<lparr> px = Fin (7 / 2), py = Fin (7 / 2) \<rparr> \<lparr> px = Fin 1, py = Fin (- 1) \<rparr>
   = Inr (\<lparr> px = Fin 4, py = Fin 3 \<rparr>, \<lparr> px = Fin (401 / 100), py = Fin (299 / 100) \<rparr>)"
  by (simp add: cast_eval)

lemma cast_test_oblique: "cast_test \<lparr> px = Fin (7 / 2), py = Fin (7 / 2) \<rparr> \<lparr> px = Fin 1, py = Fin (1 / 4) \<rparr>
   = Inr (\<lparr> px = Fin 4, py = Fin (29 / 8) \<rparr>, \<lparr> px = Fin (401 / 100), py = Fin (29 / 8) \<rparr>)"
  by (simp add: cast_eval)







lemma cast_test_unfold:
  assumes "delta = mul direction (Fin 0.01)"
  shows "cast_test whr direction =
     ebind (sh whr direction) (\<lambda>h.
     ebind (sv whr direction) (\<lambda>v.
        ebind (dec (px (cmp whr h v))) (\<lambda>decx.
            if decx = Fin 0
            then ebind (dec (py (cmp whr h v))) (\<lambda>decy.
                   Inr (cmp whr h v, add (cmp whr h v)
                      (if decy = Fin 0 then delta else \<lparr> px = px delta, py = Fin 0 \<rparr>)))
            else Inr (cmp whr h v, add (cmp whr h v) \<lparr> px = Fin 0, py = py delta \<rparr>))))"
  unfolding cast_test_def assms Let_def by (rule refl)

text \<open>
  C2, amended. With \<open>ray\<close> the crossing chosen by \<open>cast\<close> and \<open>test\<close> the nudged
  point: when both coordinates of \<open>ray\<close> are integers, \<open>test\<close> is \<open>ray\<close> plus the
  direction scaled by 0.01; when only the x coordinate is an integer (the crossing is
  on a grid line \<open>x = k\<close>), the nudge is along the x axis; when the x coordinate is
  no integer, the nudge is along the y axis.
\<close>

theorem cast_test_nudge:
  assumes "cast_test whr direction = Inr (ray, test)"
    and "px ray = Fin rx" and "py ray = Fin ry"
    and "px direction = Fin dx" and "py direction = Fin dy"
  shows "test =
     (if rx \<in> \<int> \<and> ry \<in> \<int> then \<lparr> px = Fin (rx + dx * 0.01), py = Fin (ry + dy * 0.01) \<rparr>
      else if rx \<in> \<int> then \<lparr> px = Fin (rx + dx * 0.01), py = Fin ry \<rparr>
      else \<lparr> px = Fin rx, py = Fin (ry + dy * 0.01) \<rparr>)"
proof -
  define delta where "delta = mul direction (Fin 0.01)"
  note cast_test_unfold[OF delta_def, of whr]
  with assms(1) obtain decx where
    c: "dec (px ray) = Inr decx"
       "(if decx = Fin 0
         then ebind (dec (py ray)) (\<lambda>decy. Inr (ray, add ray
                (if decy = Fin 0 then delta else \<lparr> px = px delta, py = Fin 0 \<rparr>)))
         else Inr (ray, add ray \<lparr> px = Fin 0, py = py delta \<rparr>)) = Inr (ray, test)"
    by (auto simp: ebind_eq_Inr split: if_splits)
  have delta: "delta = \<lparr> px = Fin (dx * 0.01), py = Fin (dy * 0.01) \<rparr>"
    using assms(4,5) by (simp add: delta_def mul_def)
  from c(1) assms(2) have dx: "decx = Fin 0 \<longleftrightarrow> rx \<in> \<int>"
    by (auto simp: dec_eq_Inr trunc_eq_self_iff[symmetric])
  show ?thesis
  proof (cases "rx \<in> \<int>")
    case False
    with c(2) dx assms delta show ?thesis by (auto simp: add_def)
  next
    case True
    with c(2) dx obtain decy where
      d: "dec (py ray) = Inr decy"
         "test = add ray (if decy = Fin 0 then delta else \<lparr> px = px delta, py = Fin 0 \<rparr>)"
      by (auto simp: ebind_eq_Inr)
    from d(1) assms(3) have "decy = Fin 0 \<longleftrightarrow> ry \<in> \<int>"
      by (auto simp: dec_eq_Inr trunc_eq_self_iff[symmetric])
    with d(2) True assms delta show ?thesis by (simp add: add_def)
  qed
qed

theorem cast_test_nudge_witness:
  "cast_test \<lparr> px = Fin 3.5, py = Fin 3.5 \<rparr> \<lparr> px = Fin 1, py = Fin 0.25 \<rparr>
     = Inr (\<lparr> px = Fin 4, py = Fin 3.625 \<rparr>, \<lparr> px = Fin 4.01, py = Fin 3.625 \<rparr>)
   \<and> \<lparr> px = Fin 4.01, py = Fin 3.625 \<rparr> =
     (if (4 :: real) \<in> \<int> \<and> (3.625 :: real) \<in> \<int>
      then \<lparr> px = Fin (4 + 1 * 0.01), py = Fin (3.625 + 0.25 * 0.01) \<rparr>
      else if (4 :: real) \<in> \<int> then \<lparr> px = Fin (4 + 1 * 0.01), py = Fin 3.625 \<rparr>
      else \<lparr> px = Fin 4, py = Fin (3.625 + 0.25 * 0.01) \<rparr>)"
proof -
  have h: "cast_test \<lparr> px = Fin 3.5, py = Fin 3.5 \<rparr> \<lparr> px = Fin 1, py = Fin 0.25 \<rparr>
     = Inr (\<lparr> px = Fin 4, py = Fin 3.625 \<rparr>, \<lparr> px = Fin 4.01, py = Fin 3.625 \<rparr>)"
    by (simp add: cast_test_oblique)
  have "\<lparr> px = Fin 4.01, py = Fin 3.625 \<rparr> =
     (if (4 :: real) \<in> \<int> \<and> (3.625 :: real) \<in> \<int>
      then \<lparr> px = Fin (4 + 1 * 0.01), py = Fin (3.625 + 0.25 * 0.01) \<rparr>
      else if (4 :: real) \<in> \<int> then \<lparr> px = Fin (4 + 1 * 0.01), py = Fin 3.625 \<rparr>
      else \<lparr> px = Fin 4, py = Fin (3.625 + 0.25 * 0.01) \<rparr>)"
    by (rule cast_test_nudge[OF h]) simp_all
  with h show ?thesis by (rule conjI)
qed

text \<open>
  From \<open>(3.5, 3.5)\<close> in the direction \<open>(1, 0.25)\<close> the crossing is \<open>(4, 3.625)\<close>: the
  x coordinate is on the integer boundary and the y coordinate is not. The nudge is
  along the x axis; a nudge along the y axis would give \<open>(4, 3.6275)\<close>.
\<close>

theorem cast_test_nudge_axis_counterexample:
  "cast_test \<lparr> px = Fin 3.5, py = Fin 3.5 \<rparr> \<lparr> px = Fin 1, py = Fin 0.25 \<rparr>
     = Inr (\<lparr> px = Fin 4, py = Fin 3.625 \<rparr>, \<lparr> px = Fin 4.01, py = Fin 3.625 \<rparr>)
   \<and> (4 :: real) = of_int (trunc 4) \<and> (3.625 :: real) \<noteq> of_int (trunc 3.625)
   \<and> \<lparr> px = Fin 4.01, py = Fin 3.625 \<rparr> \<noteq> \<lparr> px = Fin 4, py = Fin (3.625 + 0.25 * 0.01) \<rparr>"
  by (simp add: cast_test_oblique trunc_def)






















lemma cast_diagonal: "cast \<lparr> px = Fin (7 / 2), py = Fin (7 / 2) \<rparr> \<lparr> px = Fin 1, py = Fin (- 1) \<rparr> (map_walling build)
   = Some (Inr \<lparr> hit_tile = 3, hit_where = \<lparr> px = Fin (401 / 100), py = Fin (299 / 100) \<rparr> \<rparr>)"
proof -
  have t: "tile \<lparr> px = Fin (401 / 100), py = Fin (299 / 100) \<rparr> (map_walling build) = Inr 3"
    by (simp add: tile_def build_def trunc_def)
  show ?thesis
    by (subst cast.simps) (simp add: cast_test_diagonal t)
qed







subsection \<open>Renderer\<close>

text \<open>
  C6. The ceiling loop of \<open>render\<close> runs over the rows from \<open>wall.top\<close> up to
  \<open>gpu.xres\<close>, not up to \<open>gpu.yres\<close>. On a display of one column and two rows the
  wall of column 0 has \<open>top = 1\<close>: row 0 is painted with the colour of the wall, and
  row 1, the ceiling, is not painted.
\<close>

theorem render_ceiling_rows:
  "render born build \<lparr> gpu_xres = 1, gpu_yres = 2 \<rparr> \<lparr> display_pixels = [0, 0], display_width = 2 \<rparr>
     = Some (Inr \<lparr> display_pixels = [0xAA0000, 0], display_width = 2 \<rparr>)"
proof -
  have cam: "lerp (rotate_line (hero_fov born) (hero_theta born)) (of_int_f 0 / of_int_f 1)
      = \<lparr> px = Fin 1, py = Fin (- 1) \<rparr>"
    by (simp add: lerp_def rotate_line_def born_def viewport_def turn_def add_def mul_def sub_def of_int_f_def)
  have w: "hero_where born = \<lparr> px = Fin (7 / 2), py = Fin (7 / 2) \<rparr>" by (simp add: born_def)
  have cor: "turn (sub \<lparr> px = Fin (401 / 100), py = Fin (299 / 100) \<rparr>
                 \<lparr> px = Fin (7 / 2), py = Fin (7 / 2) \<rparr>) (- hero_theta born)
      = \<lparr> px = Fin (51 / 100), py = Fin (- (51 / 100)) \<rparr>"
    by (simp add: born_def turn_def sub_def)
  have pr: "project 1 2 (hero_fov born) \<lparr> px = Fin (51 / 100), py = Fin (- (51 / 100)) \<rparr>
      = Inr \<lparr> wall_top = 1, wall_bot = 0, wall_size = Fin (50 / 51) \<rparr>"
    by (simp add: project_def born_def viewport_def of_int_f_def trunc_def)
  have col: "color 3 = Inr 0xAA0000" by (simp add: color_def)
  have col0: "render_column born build \<lparr> gpu_xres = 1, gpu_yres = 2 \<rparr>
       (rotate_line (hero_fov born) (hero_theta born)) 0 \<lparr> display_pixels = [0, 0], display_width = 2 \<rparr>
     = Some (Inr \<lparr> display_pixels = [0xAA0000, 0], display_width = 2 \<rparr>)"
    unfolding render_column_def Let_def
    by (simp add: cam w cast_diagonal cor pr col put_def)
  show ?thesis
    unfolding render_def Let_def by (simp add: col0)
qed

end
